theory Spec2Isabelle
  imports Main
begin

section \<open>Data model (accounts/models.py)\<close>

text \<open>
  Rows are records, tables are lists of rows in insertion order, and a model instance is
  referred to by its primary key. The character fields that carry a status are plain
  strings, as in the source (\<open>CharField\<close>; the \<open>choices\<close> of \<open>Contract.status\<close> are not
  enforced by \<open>save\<close>). Decimal amounts are counted in hundredths. The timestamp columns
  and \<open>Project.budget\<close> (a float) are read by none of the operations below and are left
  out. Strings are byte strings: a character beyond ASCII is its UTF-8 bytes. Every view
  requires an authenticated user, so the user of a request is a \<open>user\<close> row; requests
  carry no query-string filters.
\<close>

type_synonym pk = nat

record user =
  user_id :: pk
  username :: string
  is_client :: bool
  is_freelancer :: bool

record project =
  project_id :: pk
  project_client :: pk
  title :: string
  description :: string
  category :: string
  duration :: int

record proposal =
  proposal_id :: pk
  proposal_project :: pk
  proposal_freelancer :: pk
  proposal_text :: string
  bid_amount :: int
  proposal_status :: string

record contract =
  contract_id :: pk
  contract_proposal :: pk
  contract_client :: pk
  contract_freelancer :: pk
  payment_amount :: int
  contract_status :: string
  rating :: "nat option"
  review :: "string option"

record message =
  message_id :: pk
  message_contract :: pk
  sender :: pk
  receiver :: pk
  text_body :: string
  message_is_read :: bool

record notification =
  notification_id :: pk
  notification_user :: pk
  notification_message :: string
  link :: "string option"
  notification_type :: string
  is_read :: bool

text \<open>
  The database: one table per model and, for the tables the operations insert into, the
  last value handed out by the auto-increment sequence of the primary key.
\<close>

record db =
  projects :: "project list"
  proposals :: "proposal list"
  contracts :: "contract list"
  messages :: "message list"
  notifications :: "notification list"
  contract_seq :: pk
  message_seq :: pk
  notification_seq :: pk

text \<open>
  What a request can end in besides success. The first four are the responses the views
  build (403 "Not allowed", 400 "Proposal not pending", 400 "Contract already
  completed.", 404); \<open>ValidationError\<close> is the 400 of a serializer that rejects the
  request; \<open>DoesNotExist\<close> is the uncaught ORM exception of following a foreign key
  whose row is missing, which a database with its constraints never raises.
\<close>

datatype error =
  Unauthorized | InvalidState | AlreadyCompleted | NotFound | ValidationError | DoesNotExist

section \<open>String formatting\<close>

definition quote :: string where
  "quote = [CHR 0x27]"

definition party_popper :: string where
  "party_popper = [CHR 0xF0, CHR 0x9F, CHR 0x8E, CHR 0x89]"

function str_nat :: "nat \<Rightarrow> string" where
  "str_nat n =
     (if n < 10 then [char_of (48 + n)]
      else str_nat (n div 10) @ [char_of (48 + n mod 10)])"
  by pat_completeness auto
termination
  by (relation "measure id") auto

declare str_nat.simps [simp del]

section \<open>Queries\<close>

definition get_by :: "('a \<Rightarrow> pk) \<Rightarrow> 'a list \<Rightarrow> pk \<Rightarrow> 'a option" where
  "get_by key rows k = find (\<lambda>r. key r = k) rows"

definition put_by :: "('a \<Rightarrow> pk) \<Rightarrow> 'a \<Rightarrow> 'a list \<Rightarrow> 'a list" where
  \<comment> \<open>\<open>Model.save\<close> of an instance that has a primary key: UPDATE the row, INSERT when
      there is none.\<close>
  "put_by key x rows =
     (if get_by key rows (key x) = None then rows @ [x]
      else map (\<lambda>r. if key r = key x then x else r) rows)"

definition proposal_project_row :: "proposal \<Rightarrow> db \<Rightarrow> project option" where
  \<comment> \<open>\<open>proposal.project\<close>\<close>
  "proposal_project_row p s = get_by project_id (projects s) (proposal_project p)"

definition contract_project_title :: "contract \<Rightarrow> db \<Rightarrow> string option" where
  \<comment> \<open>\<open>contract.proposal.project.title\<close>\<close>
  "contract_project_title c s =
     (case get_by proposal_id (proposals s) (contract_proposal c) of
        None \<Rightarrow> None
      | Some p \<Rightarrow> map_option title (proposal_project_row p s))"

section \<open>Notifications\<close>

definition Notification_create :: "pk \<Rightarrow> string \<Rightarrow> string option \<Rightarrow> string \<Rightarrow> db \<Rightarrow> db" where
  \<comment> \<open>\<open>Notification.objects.create(user=, message=, link=, notification_type=)\<close>; no
      receiver listens to the save of a notification.\<close>
  "Notification_create u m l t s =
     s\<lparr>notifications := notifications s @
          [\<lparr>notification_id = Suc (notification_seq s), notification_user = u,
            notification_message = m, link = l, notification_type = t, is_read = False\<rparr>],
       notification_seq := Suc (notification_seq s)\<rparr>"

definition create_notification :: "pk \<Rightarrow> string \<Rightarrow> string \<Rightarrow> db \<Rightarrow> db" where
  \<comment> \<open>views.py, \<open>create_notification(user, message, link="")\<close>\<close>
  "create_notification u m l s = Notification_create u m (Some l) ''system'' s"

section \<open>Contracts\<close>

definition notify_on_contract_status_change :: "contract \<Rightarrow> db \<Rightarrow> (error + unit) \<times> db" where
  \<comment> \<open>models.py, receiver of \<open>post_save\<close> of \<open>Contract\<close>\<close>
  "notify_on_contract_status_change c s =
     (if contract_status c = ''Completed'' then
        (case contract_project_title c s of
           None \<Rightarrow> (Inl DoesNotExist, s)
         | Some t \<Rightarrow>
             (Inr (),
              Notification_create (contract_freelancer c)
                (''You have successfully completed the project '' @ quote @ t @ quote @ ''.'')
                (Some (''/contracts/'' @ str_nat (contract_id c) @ ''/'')) ''project''
                (Notification_create (contract_client c)
                   (''Your project '' @ quote @ t @ quote @ '' has been marked as completed.'')
                   (Some (''/contracts/'' @ str_nat (contract_id c) @ ''/'')) ''project'' s)))
      else (Inr (), s))"

definition Contract_save :: "contract \<Rightarrow> db \<Rightarrow> (error + unit) \<times> db" where
  \<comment> \<open>\<open>contract.save()\<close>: the row is written, then \<open>post_save\<close> is sent\<close>
  "Contract_save c s =
     notify_on_contract_status_change c
       (s\<lparr>contracts := put_by contract_id c (contracts s)\<rparr>)"

definition mark_completed :: "user \<Rightarrow> pk \<Rightarrow> db \<Rightarrow> (error + contract) \<times> db" where
  \<comment> \<open>views.py, \<open>ContractViewSet.mark_completed\<close>; the requesting user is not looked at\<close>
  "mark_completed u k s =
     (case get_by contract_id (contracts s) k of
        None \<Rightarrow> (Inl NotFound, s)
      | Some c \<Rightarrow>
          if contract_status c = ''Completed'' then (Inl AlreadyCompleted, s)
          else
            (let c' = c\<lparr>contract_status := ''Completed''\<rparr> in
             case Contract_save c' s of
               (Inl e, s1) \<Rightarrow> (Inl e, s1)
             | (Inr _, s1) \<Rightarrow>
                 (case contract_project_title c' s1 of
                    None \<Rightarrow> (Inl DoesNotExist, s1)
                  | Some t \<Rightarrow>
                      (Inr c',
                       Notification_create (contract_freelancer c')
                         (party_popper @ '' Your contract for '' @ quote @ t @ quote
                            @ '' has been marked as completed!'')
                         None ''system'' s1))))"

definition Contract_create :: "pk \<Rightarrow> pk \<Rightarrow> pk \<Rightarrow> int \<Rightarrow> string \<Rightarrow> db \<Rightarrow> (error + contract) \<times> db" where
  \<comment> \<open>\<open>Contract.objects.create(proposal=, client=, freelancer=, payment_amount=, status=)\<close>:
      the row gets the next primary key, then \<open>post_save\<close> is sent\<close>
  "Contract_create p cl fr amt st s =
     (let c = \<lparr>contract_id = Suc (contract_seq s), contract_proposal = p, contract_client = cl,
                contract_freelancer = fr, payment_amount = amt, contract_status = st,
                rating = None, review = None\<rparr>;
          s1 = s\<lparr>contracts := contracts s @ [c], contract_seq := Suc (contract_seq s)\<rparr>
      in case notify_on_contract_status_change c s1 of
           (Inl e, s2) \<Rightarrow> (Inl e, s2)
         | (Inr _, s2) \<Rightarrow> (Inr c, s2))"

definition Contract_queryset :: "user \<Rightarrow> db \<Rightarrow> contract list" where
  \<comment> \<open>views.py, \<open>ContractViewSet.get_queryset\<close>\<close>
  "Contract_queryset u s =
     (if is_client u then filter (\<lambda>c. contract_client c = user_id u) (contracts s)
      else if is_freelancer u then filter (\<lambda>c. contract_freelancer c = user_id u) (contracts s)
      else [])"

text \<open>
  \<open>ContractViewSet\<close> is a \<open>ModelViewSet\<close>, so it also answers PATCH. The serializer is
  in serializers.py, which is not among the sources; the fields it lets a request write
  are taken as a parameter: a patch that gives a new rating, review or status, or leaves
  the field alone.
\<close>

record contract_patch =
  new_rating :: "nat option option"
  new_review :: "string option option"
  new_contract_status :: "string option"

definition apply_contract_patch :: "contract_patch \<Rightarrow> contract \<Rightarrow> contract" where
  "apply_contract_patch d c =
     c\<lparr>rating := (case new_rating d of None \<Rightarrow> rating c | Some r \<Rightarrow> r),
       review := (case new_review d of None \<Rightarrow> review c | Some r \<Rightarrow> r),
       contract_status := (case new_contract_status d of None \<Rightarrow> contract_status c | Some x \<Rightarrow> x)\<rparr>"

definition partial_update_contract :: "user \<Rightarrow> pk \<Rightarrow> contract_patch \<Rightarrow> db \<Rightarrow> (error + contract) \<times> db" where
  \<comment> \<open>\<open>ContractViewSet.partial_update\<close>: \<open>get_object\<close> on the user's queryset, then
      \<open>serializer.save()\<close>\<close>
  "partial_update_contract u k d s =
     (case get_by contract_id (Contract_queryset u s) k of
        None \<Rightarrow> (Inl NotFound, s)
      | Some c \<Rightarrow>
          (case Contract_save (apply_contract_patch d c) s of
             (Inl e, s1) \<Rightarrow> (Inl e, s1)
           | (Inr _, s1) \<Rightarrow> (Inr (apply_contract_patch d c), s1)))"

section \<open>Proposals\<close>

definition has_contract :: "proposal \<Rightarrow> db \<Rightarrow> bool" where
  \<comment> \<open>\<open>hasattr(instance, 'contract')\<close>: the reverse one-to-one accessor finds a row, or
      raises the attribute error that \<open>hasattr\<close> turns into \<open>False\<close>\<close>
  "has_contract p s = (get_by contract_proposal (contracts s) (proposal_id p) \<noteq> None)"

definition contract_exists :: "proposal \<Rightarrow> db \<Rightarrow> bool" where
  \<comment> \<open>\<open>Contract.objects.filter(proposal=instance).exists()\<close>\<close>
  "contract_exists p s = (filter (\<lambda>c. contract_proposal c = proposal_id p) (contracts s) \<noteq> [])"

definition create_contract_on_accept :: "proposal \<Rightarrow> db \<Rightarrow> (error + unit) \<times> db" where
  \<comment> \<open>models.py, receiver of \<open>post_save\<close> of \<open>Proposal\<close>\<close>
  "create_contract_on_accept p s =
     (if proposal_status p = ''Accepted'' \<and> \<not> has_contract p s then
        (case proposal_project_row p s of
           None \<Rightarrow> (Inl DoesNotExist, s)
         | Some pr \<Rightarrow>
             (case Contract_create (proposal_id p) (project_client pr) (proposal_freelancer p)
                     (bid_amount p) ''Active'' s of
                (Inl e, s1) \<Rightarrow> (Inl e, s1)
              | (Inr _, s1) \<Rightarrow> (Inr (), s1)))
      else (Inr (), s))"

definition signals_create_contract_on_accept :: "proposal \<Rightarrow> db \<Rightarrow> (error + unit) \<times> db" where
  \<comment> \<open>signals.py, the receiver of the same name\<close>
  "signals_create_contract_on_accept p s =
     (if proposal_status p = ''Accepted'' \<and> \<not> contract_exists p s then
        (case proposal_project_row p s of
           None \<Rightarrow> (Inl DoesNotExist, s)
         | Some pr \<Rightarrow>
             (case Contract_create (proposal_id p) (project_client pr) (proposal_freelancer p)
                     (bid_amount p) ''Active'' s of
                (Inl e, s1) \<Rightarrow> (Inl e, s1)
              | (Inr _, s1) \<Rightarrow> (Inr (), s1)))
      else (Inr (), s))"

text \<open>
  models.py registers its receivers when the models are loaded. signals.py registers its
  own only if something imports it (an \<open>AppConfig.ready\<close>, which is not among the
  sources), so whether it is loaded is a parameter, \<open>sig\<close>. Receivers run in the order of
  registration, models.py first, and an exception of one ends the dispatch.
\<close>

definition Proposal_save :: "bool \<Rightarrow> proposal \<Rightarrow> db \<Rightarrow> (error + unit) \<times> db" where
  \<comment> \<open>\<open>proposal.save()\<close>: the row is written, then \<open>post_save\<close> is sent\<close>
  "Proposal_save sig p s =
     (case create_contract_on_accept p (s\<lparr>proposals := put_by proposal_id p (proposals s)\<rparr>) of
        (Inl e, s1) \<Rightarrow> (Inl e, s1)
      | (Inr _, s1) \<Rightarrow> if sig then signals_create_contract_on_accept p s1 else (Inr (), s1))"

definition Contract_get_or_create :: "proposal \<Rightarrow> project \<Rightarrow> db \<Rightarrow> (error + contract) \<times> db" where
  \<comment> \<open>\<open>Contract.objects.get_or_create(proposal=proposal, defaults={...})\<close> in \<open>accept\<close>\<close>
  "Contract_get_or_create p pr s =
     (case get_by contract_proposal (contracts s) (proposal_id p) of
        Some c \<Rightarrow> (Inr c, s)
      | None \<Rightarrow>
          Contract_create (proposal_id p) (project_client pr) (proposal_freelancer p)
            (bid_amount p) ''Active'' s)"

definition Proposal_queryset :: "user \<Rightarrow> db \<Rightarrow> proposal list" where
  \<comment> \<open>views.py, \<open>ProposalViewSet.get_queryset\<close>\<close>
  "Proposal_queryset u s =
     (if is_client u then
        filter (\<lambda>p. map_option project_client (proposal_project_row p s) = Some (user_id u))
          (proposals s)
      else if is_freelancer u then
        filter (\<lambda>p. proposal_freelancer p = user_id u) (proposals s)
      else [])"

definition visible_to :: "user \<Rightarrow> project list \<Rightarrow> proposal \<Rightarrow> bool" where
  \<comment> \<open>the proposals of \<open>get_queryset\<close>, as a predicate on the row\<close>
  "visible_to u ps p =
     (if is_client u then
        map_option project_client (get_by project_id ps (proposal_project p)) = Some (user_id u)
      else is_freelancer u \<and> proposal_freelancer p = user_id u)"

definition accept :: "bool \<Rightarrow> user \<Rightarrow> pk \<Rightarrow> db \<Rightarrow> (error + pk) \<times> db" where
  \<comment> \<open>views.py, \<open>ProposalViewSet.accept\<close>; the result is the \<open>contract_id\<close> of the
      response\<close>
  "accept sig u k s =
     (case get_by proposal_id (Proposal_queryset u s) k of
        None \<Rightarrow> (Inl NotFound, s)
      | Some p \<Rightarrow>
          (case proposal_project_row p s of
             None \<Rightarrow> (Inl DoesNotExist, s)
           | Some pr \<Rightarrow>
               if project_client pr \<noteq> user_id u then (Inl Unauthorized, s)
               else if proposal_status p \<noteq> ''Pending'' then (Inl InvalidState, s)
               else
                 (let p' = p\<lparr>proposal_status := ''Accepted''\<rparr> in
                  case Proposal_save sig p' s of
                    (Inl e, s1) \<Rightarrow> (Inl e, s1)
                  | (Inr _, s1) \<Rightarrow>
                      (case Contract_get_or_create p' pr s1 of
                         (Inl e, s2) \<Rightarrow> (Inl e, s2)
                       | (Inr c, s2) \<Rightarrow>
                           (Inr (contract_id c),
                            create_notification (proposal_freelancer p')
                              (''Your proposal for project '' @ quote @ title pr @ quote
                                 @ '' has been accepted!'')
                              (''/contracts/'' @ str_nat (contract_id c) @ ''/'') s2)))))"

text \<open>
  \<open>ProposalViewSet\<close> is a \<open>ModelViewSet\<close> too, and PATCH is how a proposal is rejected
  or its bid changed: there is no action of its own for either. The writable fields of
  the serializer are again a parameter.
\<close>

record proposal_patch =
  new_proposal_text :: "string option"
  new_bid_amount :: "int option"
  new_proposal_status :: "string option"

definition apply_proposal_patch :: "proposal_patch \<Rightarrow> proposal \<Rightarrow> proposal" where
  "apply_proposal_patch d p =
     p\<lparr>proposal_text := (case new_proposal_text d of None \<Rightarrow> proposal_text p | Some x \<Rightarrow> x),
       bid_amount := (case new_bid_amount d of None \<Rightarrow> bid_amount p | Some x \<Rightarrow> x),
       proposal_status := (case new_proposal_status d of None \<Rightarrow> proposal_status p | Some x \<Rightarrow> x)\<rparr>"

definition partial_update_proposal :: "bool \<Rightarrow> user \<Rightarrow> pk \<Rightarrow> proposal_patch \<Rightarrow> db \<Rightarrow> (error + proposal) \<times> db" where
  \<comment> \<open>\<open>ProposalViewSet.partial_update\<close>: \<open>get_object\<close> on the user's queryset, then
      \<open>serializer.save()\<close>\<close>
  "partial_update_proposal sig u k d s =
     (case get_by proposal_id (Proposal_queryset u s) k of
        None \<Rightarrow> (Inl NotFound, s)
      | Some p \<Rightarrow>
          (case Proposal_save sig (apply_proposal_patch d p) s of
             (Inl e, s1) \<Rightarrow> (Inl e, s1)
           | (Inr _, s1) \<Rightarrow> (Inr (apply_proposal_patch d p), s1)))"

section \<open>Messages\<close>

definition create_notification_on_message :: "user \<Rightarrow> message \<Rightarrow> bool \<Rightarrow> db \<Rightarrow> db" where
  \<comment> \<open>models.py, receiver of \<open>post_save\<close> of \<open>Message\<close>; \<open>u\<close> is \<open>instance.sender\<close>\<close>
  "create_notification_on_message u m created s =
     (if created then
        Notification_create (receiver m) (''New message from '' @ username u)
          (Some (''/contracts/'' @ str_nat (message_contract m) @ ''/chat'')) ''message'' s
      else s)"

definition signals_create_notification_on_message :: "user \<Rightarrow> message \<Rightarrow> bool \<Rightarrow> db \<Rightarrow> db" where
  \<comment> \<open>signals.py, the receiver of the same name: no \<open>notification_type\<close>, so the
      default of the field\<close>
  "signals_create_notification_on_message u m created s =
     (if created then
        Notification_create (receiver m) (''New message from '' @ username u)
          (Some (''/contracts/'' @ str_nat (message_contract m) @ ''/chat'')) ''system'' s
      else s)"

definition Message_create :: "bool \<Rightarrow> user \<Rightarrow> pk \<Rightarrow> pk \<Rightarrow> string \<Rightarrow> db \<Rightarrow> message \<times> db" where
  \<comment> \<open>\<open>Message.objects.create(contract=, receiver=, text=, sender=)\<close>: the row gets the
      next primary key, then \<open>post_save\<close> is sent with \<open>created=True\<close>\<close>
  "Message_create sig u c r t s =
     (let m = \<lparr>message_id = Suc (message_seq s), message_contract = c, sender = user_id u,
                receiver = r, text_body = t, message_is_read = False\<rparr>;
          s1 = s\<lparr>messages := messages s @ [m], message_seq := Suc (message_seq s)\<rparr>;
          s2 = create_notification_on_message u m True s1
      in (m, if sig then signals_create_notification_on_message u m True s2 else s2))"

text \<open>
  \<open>MessageViewSet.create\<close> is the framework's: it validates the request with the
  serializer and calls \<open>perform_create\<close>. The serializer is in serializers.py, not among
  the sources; what is modelled of it is that the contract named by the request must
  exist (a related field resolves a primary key or rejects the request), and that the
  receiver and the text come from the request.
\<close>

definition perform_create_message :: "bool \<Rightarrow> user \<Rightarrow> pk \<Rightarrow> pk \<Rightarrow> string \<Rightarrow> db \<Rightarrow> (error + message) \<times> db" where
  \<comment> \<open>views.py, \<open>MessageViewSet.perform_create\<close>\<close>
  "perform_create_message sig u k r t s =
     (case get_by contract_id (contracts s) k of
        None \<Rightarrow> (Inl ValidationError, s)
      | Some c \<Rightarrow>
          (case Message_create sig u k r t s of
             (m, s1) \<Rightarrow>
               (let recipient =
                      (if sender m = contract_client c then contract_freelancer c
                       else contract_client c)
                in case contract_project_title c s1 of
                     None \<Rightarrow> (Inl DoesNotExist, s1)
                   | Some ti \<Rightarrow>
                       (Inr m,
                        create_notification recipient
                          (''New message in your contract chat for '' @ quote @ ti @ quote @ ''.'')
                          (''/contracts/'' @ str_nat (contract_id c) @ ''/messages/'') s1))))"

section \<open>Reading notifications\<close>

definition Notification_queryset :: "user \<Rightarrow> db \<Rightarrow> notification list" where
  \<comment> \<open>views.py, \<open>NotificationViewSet.get_queryset\<close>; the order (newest first) plays no
      part in a lookup by primary key\<close>
  "Notification_queryset u s = filter (\<lambda>n. notification_user n = user_id u) (notifications s)"

definition Notification_save :: "notification \<Rightarrow> db \<Rightarrow> db" where
  \<comment> \<open>\<open>notification.save()\<close>; nothing listens to it\<close>
  "Notification_save n s = s\<lparr>notifications := put_by notification_id n (notifications s)\<rparr>"

definition mark_as_read :: "user \<Rightarrow> pk \<Rightarrow> db \<Rightarrow> (error + unit) \<times> db" where
  \<comment> \<open>views.py, \<open>NotificationViewSet.mark_as_read\<close>\<close>
  "mark_as_read u k s =
     (case get_by notification_id (Notification_queryset u s) k of
        None \<Rightarrow> (Inl NotFound, s)
      | Some n \<Rightarrow> (Inr (), Notification_save (n\<lparr>is_read := True\<rparr>) s))"

section \<open>Sequences of requests\<close>

definition run_all :: "(db \<Rightarrow> 'r \<times> db) list \<Rightarrow> db \<Rightarrow> db" where
  \<comment> \<open>one request after the other, each on the database the previous one left\<close>
  "run_all fs s = fold (\<lambda>f s'. snd (f s')) fs s"

definition notifications_for :: "pk \<Rightarrow> db \<Rightarrow> notification list" where
  "notifications_for u s = filter (\<lambda>n. notification_user n = u) (notifications s)"

definition contracts_of :: "pk \<Rightarrow> db \<Rightarrow> contract list" where
  "contracts_of k s = filter (\<lambda>c. contract_proposal c = k) (contracts s)"




section \<open>A small marketplace\<close>

text \<open>
  Alice is a client with one project, Bob a freelancer with one pending proposal for it
  (a bid of 100.00), Carol a second client and Dave a second freelancer, both strangers
  to the project.
\<close>

definition alice :: user where
  "alice = \<lparr>user_id = 1, username = ''alice'', is_client = True, is_freelancer = False\<rparr>"

definition bob :: user where
  "bob = \<lparr>user_id = 2, username = ''bob'', is_client = False, is_freelancer = True\<rparr>"

definition carol :: user where
  "carol = \<lparr>user_id = 3, username = ''carol'', is_client = True, is_freelancer = False\<rparr>"

definition dave :: user where
  "dave = \<lparr>user_id = 4, username = ''dave'', is_client = False, is_freelancer = True\<rparr>"

definition site :: project where
  "site = \<lparr>project_id = 1, project_client = 1, title = ''Site'', description = ''A web site'',
            category = ''web'', duration = 30\<rparr>"

definition bid :: proposal where
  "bid = \<lparr>proposal_id = 1, proposal_project = 1, proposal_freelancer = 2,
           proposal_text = ''I can do it'', bid_amount = 10000, proposal_status = ''Pending''\<rparr>"

definition db0 :: db where
  "db0 = \<lparr>projects = [site], proposals = [bid], contracts = [], messages = [],
           notifications = [], contract_seq = 0, message_seq = 0, notification_seq = 0\<rparr>"

definition deal :: contract where
  "deal = \<lparr>contract_id = 1, contract_proposal = 1, contract_client = 1, contract_freelancer = 2,
            payment_amount = 10000, contract_status = ''Active'', rating = None, review = None\<rparr>"

definition accepted_note :: notification where
  "accepted_note =
     \<lparr>notification_id = 1, notification_user = 2,
      notification_message =
        ''Your proposal for project '' @ quote @ ''Site'' @ quote @ '' has been accepted!'',
      link = Some ''/contracts/1/'', notification_type = ''system'', is_read = False\<rparr>"

definition db1 :: db where
  \<comment> \<open>\<open>db0\<close> once Alice has accepted Bob's proposal\<close>
  "db1 = \<lparr>projects = [site], proposals = [bid\<lparr>proposal_status := ''Accepted''\<rparr>],
           contracts = [deal], messages = [], notifications = [accepted_note],
           contract_seq = 1, message_seq = 0, notification_seq = 1\<rparr>"

definition completed_notes :: "notification list" where
  "completed_notes =
     [\<lparr>notification_id = 2, notification_user = 1,
       notification_message =
         ''Your project '' @ quote @ ''Site'' @ quote @ '' has been marked as completed.'',
       link = Some ''/contracts/1/'', notification_type = ''project'', is_read = False\<rparr>,
      \<lparr>notification_id = 3, notification_user = 2,
       notification_message =
         ''You have successfully completed the project '' @ quote @ ''Site'' @ quote @ ''.'',
       link = Some ''/contracts/1/'', notification_type = ''project'', is_read = False\<rparr>,
      \<lparr>notification_id = 4, notification_user = 2,
       notification_message =
         party_popper @ '' Your contract for '' @ quote @ ''Site'' @ quote
           @ '' has been marked as completed!'',
       link = None, notification_type = ''system'', is_read = False\<rparr>]"

definition db2 :: db where
  \<comment> \<open>\<open>db1\<close> once the contract has been marked completed\<close>
  "db2 = db1\<lparr>contracts := [deal\<lparr>contract_status := ''Completed''\<rparr>],
             notifications := accepted_note # completed_notes, notification_seq := 4\<rparr>"

definition five_stars :: contract_patch where
  "five_stars = \<lparr>new_rating = Some (Some 5), new_review = None, new_contract_status = None\<rparr>"



section \<open>Looking rows up and writing them back\<close>

lemma get_by_SomeD: "get_by key rows k = Some x \<Longrightarrow> x \<in> set rows \<and> key x = k"
  by (auto simp: get_by_def find_Some_iff)

lemma get_by_None_iff: "get_by key rows k = None \<longleftrightarrow> (\<forall>r \<in> set rows. key r \<noteq> k)"
  by (auto simp: get_by_def find_None_iff)

lemma get_by_filter_distinct:
  "distinct (map key rows) \<Longrightarrow> get_by key rows k = Some x \<Longrightarrow>
   get_by key (filter P rows) k = (if P x then Some x else None)"
proof (induction rows)
  case Nil
  then show ?case by (simp add: get_by_def)
next
  case (Cons r rows)
  show ?case
  proof (cases "key r = k")
    case True
    with Cons.prems have "r = x" by (simp add: get_by_def)
    moreover from Cons.prems(1) have "key r \<notin> key ` set rows" by simp
    with True have "\<forall>y \<in> set rows. key y \<noteq> k" by blast
    then have "get_by key (filter P rows) k = None" by (simp add: get_by_None_iff)
    ultimately show ?thesis using True by (simp add: get_by_def)
  next
    case False
    with Cons show ?thesis by (simp add: get_by_def)
  qed
qed

lemma put_by_existing:
  "get_by key rows (key x) = Some y \<Longrightarrow>
   put_by key x rows = map (\<lambda>r. if key r = key x then x else r) rows"
  by (simp add: put_by_def)

lemma put_by_distinct:
  assumes "distinct (map key rows)" and "get_by key rows (key x) = Some y"
  shows "put_by key x rows = map (\<lambda>r. if r = y then x else r) rows"
proof -
  from assms(2) have y: "y \<in> set rows" "key y = key x" by (auto dest: get_by_SomeD)
  have "r \<in> set rows \<Longrightarrow> (key r = key x) = (r = y)" for r
    using assms(1) y by (auto simp: distinct_map inj_on_def)
  then have "map (\<lambda>r. if key r = key x then x else r) rows = map (\<lambda>r. if r = y then x else r) rows"
    by (intro map_cong) auto
  with assms(2) show ?thesis by (simp add: put_by_existing)
qed

lemma get_by_filter_put_by:
  assumes "get_by key (filter P rows) k = Some x" and "key x' = k" and "P x'"
  shows "get_by key (filter P (put_by key x' rows)) k = Some x'"
proof -
  from assms(1) have "x \<in> set rows" "key x = k" by (auto dest: get_by_SomeD)
  with assms(2) have put: "put_by key x' rows = map (\<lambda>r. if key r = k then x' else r) rows"
    by (auto simp: put_by_def get_by_None_iff)
  have "find (\<lambda>r. key r = k) (filter P xs) = Some x \<Longrightarrow>
        find (\<lambda>r. key r = k) (filter P (map (\<lambda>r. if key r = k then x' else r) xs)) = Some x'" for xs
    using assms(2,3) by (induction xs) (auto split: if_splits)
  with assms(1) put show ?thesis by (simp add: get_by_def)
qed

lemma get_by_put_by: "get_by key rows (key x) = Some y \<Longrightarrow> get_by key (put_by key x rows) (key x) = Some x"
  using get_by_filter_put_by [of key "\<lambda>_. True" rows "key x" y x] by simp

section \<open>Completing a contract\<close>

text \<open>
  C2. \<open>mark_completed\<close> on a contract whose status is already Completed answers
  AlreadyCompleted and returns the database as it was: no row of any table changes and
  no notification is added.
\<close>

theorem mark_completed_already_completed:
  assumes "get_by contract_id (contracts s) k = Some c"
    and "contract_status c = ''Completed''"
  shows "mark_completed u k s = (Inl AlreadyCompleted, s)"
  using assms by (simp add: mark_completed_def)

theorem mark_completed_already_completed_witness:
  "mark_completed bob 1 db2 = (Inl AlreadyCompleted, db2)"
  by (rule mark_completed_already_completed [where c = "deal\<lparr>contract_status := ''Completed''\<rparr>"])
    code_simp+

lemma contract_project_title_cong:
  "proposals s' = proposals s \<Longrightarrow> projects s' = projects s \<Longrightarrow> contract_proposal c' = contract_proposal c \<Longrightarrow>
   contract_project_title c' s' = contract_project_title c s"
  by (simp add: contract_project_title_def proposal_project_row_def cong: option.case_cong)

lemma notify_other_status:
  "contract_status c \<noteq> ''Completed'' \<Longrightarrow> notify_on_contract_status_change c s = (Inr (), s)"
  by (simp add: notify_on_contract_status_change_def)

lemma notify_completed:
  assumes "contract_status c = ''Completed''" and "contract_project_title c s = Some t"
  shows "notify_on_contract_status_change c s =
     (Inr (),
      s\<lparr>notifications := notifications s @
           [\<lparr>notification_id = Suc (notification_seq s), notification_user = contract_client c,
             notification_message =
               ''Your project '' @ quote @ t @ quote @ '' has been marked as completed.'',
             link = Some (''/contracts/'' @ str_nat (contract_id c) @ ''/''),
             notification_type = ''project'', is_read = False\<rparr>,
            \<lparr>notification_id = Suc (Suc (notification_seq s)),
             notification_user = contract_freelancer c,
             notification_message =
               ''You have successfully completed the project '' @ quote @ t @ quote @ ''.'',
             link = Some (''/contracts/'' @ str_nat (contract_id c) @ ''/''),
             notification_type = ''project'', is_read = False\<rparr>],
        notification_seq := Suc (Suc (notification_seq s))\<rparr>)"
  using assms by (simp add: notify_on_contract_status_change_def Notification_create_def)

text \<open>
  C3, as the code has it. \<open>mark_completed\<close> on a contract that is not yet Completed
  (and whose project can be found) stores the contract with status Completed and adds
  three notifications, not two: the receiver of the save notifies the client and the
  freelancer, and the view then notifies the freelancer once more, in its own words.
\<close>

theorem mark_completed_notifies:
  assumes "get_by contract_id (contracts s) k = Some c"
    and "contract_status c \<noteq> ''Completed''"
    and "contract_project_title c s = Some t"
  shows "\<exists>s'. mark_completed u k s = (Inr (c\<lparr>contract_status := ''Completed''\<rparr>), s')
      \<and> get_by contract_id (contracts s') k = Some (c\<lparr>contract_status := ''Completed''\<rparr>)
      \<and> notifications s' = notifications s @
           [\<lparr>notification_id = Suc (notification_seq s), notification_user = contract_client c,
             notification_message =
               ''Your project '' @ quote @ t @ quote @ '' has been marked as completed.'',
             link = Some (''/contracts/'' @ str_nat (contract_id c) @ ''/''),
             notification_type = ''project'', is_read = False\<rparr>,
            \<lparr>notification_id = Suc (Suc (notification_seq s)),
             notification_user = contract_freelancer c,
             notification_message =
               ''You have successfully completed the project '' @ quote @ t @ quote @ ''.'',
             link = Some (''/contracts/'' @ str_nat (contract_id c) @ ''/''),
             notification_type = ''project'', is_read = False\<rparr>,
            \<lparr>notification_id = Suc (Suc (Suc (notification_seq s))),
             notification_user = contract_freelancer c,
             notification_message =
               party_popper @ '' Your contract for '' @ quote @ t @ quote
                 @ '' has been marked as completed!'',
             link = None, notification_type = ''system'', is_read = False\<rparr>]"
proof -
  let ?c = "c\<lparr>contract_status := ''Completed''\<rparr>"
  let ?s0 = "s\<lparr>contracts := put_by contract_id ?c (contracts s)\<rparr>"
  from assms(1) have k: "contract_id c = k" by (auto dest: get_by_SomeD)
  have t0: "contract_project_title ?c ?s0 = Some t"
    using assms(3) by (simp add: contract_project_title_cong [of ?s0 s ?c c])
  have stored: "get_by contract_id (put_by contract_id ?c (contracts s)) k = Some ?c"
    using get_by_put_by [of contract_id "contracts s" ?c c] assms(1) k by simp
  show ?thesis
    using assms(1,2) stored k
    by (simp add: mark_completed_def Contract_save_def notify_completed [OF _ t0]
        contract_project_title_cong [of _ ?s0 ?c ?c] t0 Notification_create_def Let_def)
qed

theorem mark_completed_notifies_witness:
  "\<exists>s'. mark_completed bob 1 db1 = (Inr (deal\<lparr>contract_status := ''Completed''\<rparr>), s')
      \<and> get_by contract_id (contracts s') 1 = Some (deal\<lparr>contract_status := ''Completed''\<rparr>)
      \<and> map notification_user (drop (length (notifications db1)) (notifications s')) = [1, 2, 2]"
proof -
  have 1: "get_by contract_id (contracts db1) 1 = Some deal" by code_simp
  have 2: "contract_status deal \<noteq> ''Completed''" by code_simp
  have 3: "contract_project_title deal db1 = Some ''Site''" by code_simp
  have 4: "contract_client deal = 1" "contract_freelancer deal = 2"
    by code_simp+
  from mark_completed_notifies [OF 1 2 3, of bob] show ?thesis
    by (auto simp: 4)
qed

text \<open>
  C3 as stated fails: when the contract of \<open>db1\<close> is completed, the freelancer gets two
  notifications and three are added in all.
\<close>

theorem mark_completed_three_notifications:
  "length (notifications_for (contract_freelancer deal) (snd (mark_completed alice 1 db1)))
     = length (notifications_for (contract_freelancer deal) db1) + 2
   \<and> length (notifications (snd (mark_completed alice 1 db1))) = length (notifications db1) + 3"
  by code_simp

section \<open>Saving a completed contract again\<close>

lemma Contract_save_completed:
  assumes "contract_status c = ''Completed''" and "contract_project_title c s = Some t"
  shows "\<exists>n1 n2. notifications (snd (Contract_save c s)) = notifications s @ [n1, n2]
      \<and> notification_user n1 = contract_client c \<and> notification_user n2 = contract_freelancer c"
proof -
  let ?s0 = "s\<lparr>contracts := put_by contract_id c (contracts s)\<rparr>"
  have "contract_project_title c ?s0 = Some t"
    using assms(2) by (simp add: contract_project_title_cong [of ?s0 s c c])
  from notify_completed [OF assms(1) this] show ?thesis
    by (simp add: Contract_save_def)
qed

text \<open>
  C9. The claim fails on the code. The receiver of \<open>post_save\<close> looks at the status the
  saved contract has, not at whether the save changed it. Alice rates the contract that
  was completed in \<open>db2\<close>: the PATCH saves the row, and the client and the freelancer are
  both notified of the completion a second time.
\<close>

theorem rating_a_completed_contract_notifies_again:
  "fst (partial_update_contract alice 1 five_stars db2)
     = Inr (deal\<lparr>contract_status := ''Completed'', rating := Some 5\<rparr>)
   \<and> map notification_user
       (drop (length (notifications db2))
          (notifications (snd (partial_update_contract alice 1 five_stars db2)))) = [1, 2]
   \<and> map notification_type
       (drop (length (notifications db2))
          (notifications (snd (partial_update_contract alice 1 five_stars db2))))
       = [''project'', ''project'']"
  by code_simp

section \<open>Marking a notification as read\<close>

text \<open>
  C10. With primary keys unique, \<open>mark_as_read\<close> by a user on a notification \<open>n\<close> answers
  NotFound and returns the database as it was when \<open>n\<close> is addressed to somebody else;
  when \<open>n\<close> is addressed to the user, the one change to the database is that the row \<open>n\<close>
  is replaced by \<open>n\<close> with \<open>is_read\<close> set, every other row and every other field staying
  as they were.
\<close>

theorem mark_as_read_scoped:
  assumes "distinct (map notification_id (notifications s))"
    and "get_by notification_id (notifications s) k = Some n"
  shows "mark_as_read u k s =
     (if notification_user n = user_id u
      then (Inr (), s\<lparr>notifications :=
                        map (\<lambda>r. if r = n then n\<lparr>is_read := True\<rparr> else r) (notifications s)\<rparr>)
      else (Inl NotFound, s))"
proof -
  have q: "get_by notification_id (Notification_queryset u s) k =
        (if notification_user n = user_id u then Some n else None)"
    unfolding Notification_queryset_def
    using assms by (rule get_by_filter_distinct)
  from assms(2) have k: "notification_id n = k" by (auto dest: get_by_SomeD)
  have "put_by notification_id (n\<lparr>is_read := True\<rparr>) (notifications s)
        = map (\<lambda>r. if r = n then n\<lparr>is_read := True\<rparr> else r) (notifications s)"
    using assms k by (intro put_by_distinct) simp_all
  with q show ?thesis
    by (simp add: mark_as_read_def Notification_save_def)
qed

theorem mark_as_read_scoped_witness:
  "mark_as_read bob 2 db2 = (Inl NotFound, db2)
   \<and> mark_as_read bob 3 db2 =
       (Inr (), db2\<lparr>notifications :=
                     map (\<lambda>r. if r = completed_notes ! 1 then (completed_notes ! 1)\<lparr>is_read := True\<rparr> else r)
                       (notifications db2)\<rparr>)"
proof -
  have d: "distinct (map notification_id (notifications db2))" by code_simp
  have 2: "get_by notification_id (notifications db2) 2 = Some (completed_notes ! 0)" by code_simp
  have 3: "get_by notification_id (notifications db2) 3 = Some (completed_notes ! 1)" by code_simp
  have u: "notification_user (completed_notes ! 0) \<noteq> user_id bob"
    "notification_user (completed_notes ! 1) = user_id bob" by code_simp+
  from mark_as_read_scoped [OF d 2, of bob] mark_as_read_scoped [OF d 3, of bob] u
  show ?thesis by simp
qed

section \<open>Saving a proposal\<close>

lemma has_contract_iff: "has_contract p s \<longleftrightarrow> contracts_of (proposal_id p) s \<noteq> []"
  by (auto simp: has_contract_def contracts_of_def get_by_None_iff filter_empty_conv)

lemma contract_exists_iff: "contract_exists p s \<longleftrightarrow> contracts_of (proposal_id p) s \<noteq> []"
  by (simp add: contract_exists_def contracts_of_def)

lemma Contract_create_Active:
  "Contract_create p cl fr amt ''Active'' s =
     (Inr \<lparr>contract_id = Suc (contract_seq s), contract_proposal = p, contract_client = cl,
           contract_freelancer = fr, payment_amount = amt, contract_status = ''Active'',
           rating = None, review = None\<rparr>,
      s\<lparr>contracts := contracts s @
           [\<lparr>contract_id = Suc (contract_seq s), contract_proposal = p, contract_client = cl,
             contract_freelancer = fr, payment_amount = amt, contract_status = ''Active'',
             rating = None, review = None\<rparr>],
        contract_seq := Suc (contract_seq s)\<rparr>)"
  by (simp add: Contract_create_def Let_def notify_other_status)

text \<open>
  What \<open>save\<close> of a proposal comes to, whether or not signals.py is loaded: its receiver
  runs after the one of models.py and then always finds the contract there.
\<close>

lemma Proposal_save_eq:
  "Proposal_save sig p s =
     (if proposal_status p = ''Accepted'' \<and> contracts_of (proposal_id p) s = [] then
        (case proposal_project_row p s of
           None \<Rightarrow> (Inl DoesNotExist, s\<lparr>proposals := put_by proposal_id p (proposals s)\<rparr>)
         | Some pr \<Rightarrow>
             (Inr (),
              s\<lparr>proposals := put_by proposal_id p (proposals s),
                contracts := contracts s @
                  [\<lparr>contract_id = Suc (contract_seq s), contract_proposal = proposal_id p,
                    contract_client = project_client pr,
                    contract_freelancer = proposal_freelancer p,
                    payment_amount = bid_amount p, contract_status = ''Active'',
                    rating = None, review = None\<rparr>],
                contract_seq := Suc (contract_seq s)\<rparr>))
      else (Inr (), s\<lparr>proposals := put_by proposal_id p (proposals s)\<rparr>))"
  by (cases sig)
    (auto simp: Proposal_save_def create_contract_on_accept_def
      signals_create_contract_on_accept_def has_contract_iff contract_exists_iff
      Contract_create_Active contracts_of_def proposal_project_row_def
      split: option.splits)

lemma Proposal_save_keeps_contracts:
  "proposal_status p \<noteq> ''Accepted'' \<or> contracts_of (proposal_id p) s \<noteq> [] \<Longrightarrow>
   contracts (snd (Proposal_save sig p s)) = contracts s"
  by (auto simp: Proposal_save_eq)

lemma run_all_Cons: "run_all (f # fs) s = run_all fs (snd (f s))"
  by (simp add: run_all_def)

lemma run_all_Nil: "run_all [] s = s"
  by (simp add: run_all_def)

text \<open>
  C8. A proposal saved with status Rejected, once or any number of times in a row, leaves
  the table of contracts as it was; in particular the contracts of that proposal are the
  same before and after, and none if there was none.
\<close>

theorem rejected_never_creates_contract:
  assumes "proposal_status p = ''Rejected''"
  shows "contracts (run_all (replicate n (Proposal_save sig p)) s) = contracts s
       \<and> contracts_of (proposal_id p) (run_all (replicate n (Proposal_save sig p)) s)
           = contracts_of (proposal_id p) s"
proof -
  have "contracts (run_all (replicate n (Proposal_save sig p)) s) = contracts s"
  proof (induction n arbitrary: s)
    case 0
    show ?case by (simp add: run_all_Nil)
  next
    case (Suc n)
    have "contracts (snd (Proposal_save sig p s)) = contracts s"
      using assms by (intro Proposal_save_keeps_contracts) simp
    with Suc.IH [of "snd (Proposal_save sig p s)"] show ?case
      by (simp add: run_all_Cons)
  qed
  then show ?thesis by (simp add: contracts_of_def)
qed

theorem rejected_never_creates_contract_witness:
  "contracts (run_all (replicate 3 (Proposal_save True (bid\<lparr>proposal_status := ''Rejected''\<rparr>))) db0) = []
   \<and> proposals (run_all (replicate 3 (Proposal_save True (bid\<lparr>proposal_status := ''Rejected''\<rparr>))) db0)
       = [bid\<lparr>proposal_status := ''Rejected''\<rparr>]"
proof -
  have r: "proposal_status (bid\<lparr>proposal_status := ''Rejected''\<rparr>) = ''Rejected''" by simp
  have c: "contracts db0 = []" by code_simp
  have p: "proposals (run_all (replicate 3 (Proposal_save True (bid\<lparr>proposal_status := ''Rejected''\<rparr>))) db0)
       = [bid\<lparr>proposal_status := ''Rejected''\<rparr>]" by code_simp
  from rejected_never_creates_contract [OF r, of 3 True db0] c p show ?thesis by simp
qed

lemma snd_partial_update_proposal:
  "get_by proposal_id (Proposal_queryset u s) k = Some p \<Longrightarrow>
   snd (partial_update_proposal sig u k d s) = snd (Proposal_save sig (apply_proposal_patch d p) s)"
  by (cases "Proposal_save sig (apply_proposal_patch d p) s")
    (auto simp: partial_update_proposal_def split: sum.splits)

lemma partial_update_proposal_rejection:
  assumes "new_proposal_status d = Some ''Rejected''"
  shows "contracts (snd (partial_update_proposal sig u k d s)) = contracts s"
proof (cases "get_by proposal_id (Proposal_queryset u s) k")
  case None
  then show ?thesis by (simp add: partial_update_proposal_def)
next
  case (Some p)
  have "proposal_status (apply_proposal_patch d p) \<noteq> ''Accepted''"
    using assms by (simp add: apply_proposal_patch_def)
  then have "contracts (snd (Proposal_save sig (apply_proposal_patch d p) s)) = contracts s"
    by (intro Proposal_save_keeps_contracts) simp
  with Some show ?thesis
    by (simp add: snd_partial_update_proposal)
qed

section \<open>Accepting a proposal\<close>

lemma get_by_append:
  "get_by key (xs @ ys) k = (case get_by key xs k of None \<Rightarrow> get_by key ys k | Some x \<Rightarrow> Some x)"
  by (induction xs) (simp_all add: get_by_def)

lemma get_by_filter_hd:
  "get_by key rows k = Some x \<Longrightarrow> \<exists>ys. filter (\<lambda>r. key r = k) rows = x # ys"
  by (induction rows) (auto simp: get_by_def split: if_splits)

lemma get_by_None_filter:
  "get_by key rows k = None \<longleftrightarrow> filter (\<lambda>r. key r = k) rows = []"
  by (auto simp: get_by_None_iff filter_empty_conv)

lemma Proposal_queryset_filter:
  "Proposal_queryset u s = filter (visible_to u (projects s)) (proposals s)"
  by (cases "is_client u"; cases "is_freelancer u")
    (simp_all add: Proposal_queryset_def visible_to_def [abs_def] proposal_project_row_def)

lemma accept_not_found:
  "get_by proposal_id (Proposal_queryset u s) k = None \<Longrightarrow> accept sig u k s = (Inl NotFound, s)"
  by (simp add: accept_def)

lemma accept_not_allowed:
  "get_by proposal_id (Proposal_queryset u s) k = Some p \<Longrightarrow> proposal_project_row p s = Some pr \<Longrightarrow>
   project_client pr \<noteq> user_id u \<Longrightarrow> accept sig u k s = (Inl Unauthorized, s)"
  by (simp add: accept_def)

lemma accept_not_pending:
  "get_by proposal_id (Proposal_queryset u s) k = Some p \<Longrightarrow> proposal_project_row p s = Some pr \<Longrightarrow>
   project_client pr = user_id u \<Longrightarrow> proposal_status p \<noteq> ''Pending'' \<Longrightarrow>
   accept sig u k s = (Inl InvalidState, s)"
  by (simp add: accept_def)

lemma accept_InrD:
  assumes "accept sig u k s = (Inr cid, s1)"
  shows "\<exists>p pr. get_by proposal_id (Proposal_queryset u s) k = Some p
      \<and> proposal_project_row p s = Some pr \<and> project_client pr = user_id u
      \<and> proposal_status p = ''Pending''"
proof (cases "get_by proposal_id (Proposal_queryset u s) k")
  case None
  with assms show ?thesis by (simp add: accept_not_found)
next
  case (Some p)
  show ?thesis
  proof (cases "proposal_project_row p s")
    case None
    with Some assms show ?thesis by (simp add: accept_def)
  next
    case pr: (Some pr)
    with Some assms show ?thesis
      by (cases "project_client pr = user_id u"; cases "proposal_status p = ''Pending''")
        (simp_all add: accept_not_allowed accept_not_pending)
  qed
qed

text \<open>
  A successful \<open>accept\<close>, when the proposal has no contract yet: the proposal is stored as
  Accepted, the receiver of its save creates the contract, \<open>get_or_create\<close> finds that
  contract, and the freelancer is notified.
\<close>

lemma accept_creates:
  assumes q: "get_by proposal_id (Proposal_queryset u s) k = Some p"
    and pr: "proposal_project_row p s = Some pr"
    and cl: "project_client pr = user_id u"
    and st: "proposal_status p = ''Pending''"
    and no: "contracts_of k s = []"
  shows "accept sig u k s =
     (Inr (Suc (contract_seq s)),
      s\<lparr>proposals := put_by proposal_id (p\<lparr>proposal_status := ''Accepted''\<rparr>) (proposals s),
        contracts := contracts s @
          [\<lparr>contract_id = Suc (contract_seq s), contract_proposal = k,
            contract_client = project_client pr, contract_freelancer = proposal_freelancer p,
            payment_amount = bid_amount p, contract_status = ''Active'',
            rating = None, review = None\<rparr>],
        contract_seq := Suc (contract_seq s),
        notifications := notifications s @
          [\<lparr>notification_id = Suc (notification_seq s),
            notification_user = proposal_freelancer p,
            notification_message =
              ''Your proposal for project '' @ quote @ title pr @ quote @ '' has been accepted!'',
            link = Some (''/contracts/'' @ str_nat (Suc (contract_seq s)) @ ''/''),
            notification_type = ''system'', is_read = False\<rparr>],
        notification_seq := Suc (notification_seq s)\<rparr>)"
proof -
  from q have k: "proposal_id p = k" by (auto dest: get_by_SomeD)
  from no have g: "get_by contract_proposal (contracts s) k = None"
    by (simp add: get_by_None_filter contracts_of_def)
  have pr': "proposal_project_row (p\<lparr>proposal_status := ''Accepted''\<rparr>) s = Some pr"
    using pr by (simp add: proposal_project_row_def)
  from cl have cl': "(project_client pr = user_id u) = True" by simp
  let ?p = "p\<lparr>proposal_status := ''Accepted''\<rparr>"
  let ?c = "\<lparr>contract_id = Suc (contract_seq s), contract_proposal = k,
            contract_client = project_client pr, contract_freelancer = proposal_freelancer p,
            payment_amount = bid_amount p, contract_status = ''Active'',
            rating = None, review = None\<rparr>"
  let ?s1 = "s\<lparr>proposals := put_by proposal_id ?p (proposals s),
               contracts := contracts s @ [?c], contract_seq := Suc (contract_seq s)\<rparr>"
  have save: "Proposal_save sig ?p s = (Inr (), ?s1)"
    using no k pr' by (simp add: Proposal_save_eq)
  have "get_by contract_proposal (contracts s @ [?c]) k = Some ?c"
    using g by (simp add: get_by_append) (simp add: get_by_def)
  then have goc: "Contract_get_or_create ?p pr ?s1 = (Inr ?c, ?s1)"
    using k by (simp add: Contract_get_or_create_def)
  have "accept sig u k s =
      (Inr (contract_id ?c),
       create_notification (proposal_freelancer ?p)
         (''Your proposal for project '' @ quote @ title pr @ quote @ '' has been accepted!'')
         (''/contracts/'' @ str_nat (contract_id ?c) @ ''/'') ?s1)"
    unfolding accept_def using q pr st
    by (simp add: cl' save goc Let_def del: append.simps)
  then show ?thesis
    by (simp add: create_notification_def Notification_create_def)
qed

text \<open>
  A successful \<open>accept\<close>, when a contract of the proposal is there already: no contract is
  created, the one found is answered, and the freelancer is notified.
\<close>

lemma accept_existing:
  assumes q: "get_by proposal_id (Proposal_queryset u s) k = Some p"
    and pr: "proposal_project_row p s = Some pr"
    and cl: "project_client pr = user_id u"
    and st: "proposal_status p = ''Pending''"
    and c: "get_by contract_proposal (contracts s) k = Some c"
  shows "accept sig u k s =
     (Inr (contract_id c),
      s\<lparr>proposals := put_by proposal_id (p\<lparr>proposal_status := ''Accepted''\<rparr>) (proposals s),
        notifications := notifications s @
          [\<lparr>notification_id = Suc (notification_seq s),
            notification_user = proposal_freelancer p,
            notification_message =
              ''Your proposal for project '' @ quote @ title pr @ quote @ '' has been accepted!'',
            link = Some (''/contracts/'' @ str_nat (contract_id c) @ ''/''),
            notification_type = ''system'', is_read = False\<rparr>],
        notification_seq := Suc (notification_seq s)\<rparr>)"
proof -
  from q have k: "proposal_id p = k" by (auto dest: get_by_SomeD)
  from c have ne: "contracts_of k s \<noteq> []"
    using get_by_None_filter [of contract_proposal "contracts s" k] by (simp add: contracts_of_def)
  from cl have cl': "(project_client pr = user_id u) = True" by simp
  let ?p = "p\<lparr>proposal_status := ''Accepted''\<rparr>"
  let ?s1 = "s\<lparr>proposals := put_by proposal_id ?p (proposals s)\<rparr>"
  have save: "Proposal_save sig ?p s = (Inr (), ?s1)"
    using ne k by (simp add: Proposal_save_eq)
  have goc: "Contract_get_or_create ?p pr ?s1 = (Inr c, ?s1)"
    using k c by (simp add: Contract_get_or_create_def)
  have "accept sig u k s =
      (Inr (contract_id c),
       create_notification (proposal_freelancer ?p)
         (''Your proposal for project '' @ quote @ title pr @ quote @ '' has been accepted!'')
         (''/contracts/'' @ str_nat (contract_id c) @ ''/'') ?s1)"
    unfolding accept_def using q pr st
    by (simp add: cl' save goc Let_def del: append.simps)
  then show ?thesis
    by (simp add: create_notification_def Notification_create_def)
qed

text \<open>After a successful \<open>accept\<close> the same user finds the proposal again, now Accepted.\<close>

lemma accept_then_found:
  assumes q: "get_by proposal_id (Proposal_queryset u s) k = Some p"
    and s1: "proposals s1 = put_by proposal_id (p\<lparr>proposal_status := ''Accepted''\<rparr>) (proposals s)"
    and pj: "projects s1 = projects s"
  shows "get_by proposal_id (Proposal_queryset u s1) k = Some (p\<lparr>proposal_status := ''Accepted''\<rparr>)"
proof -
  let ?p = "p\<lparr>proposal_status := ''Accepted''\<rparr>"
  from get_by_SomeD [OF q] have "p \<in> set (Proposal_queryset u s)" and k: "proposal_id p = k"
    by simp_all
  then have "visible_to u (projects s) p" by (simp add: Proposal_queryset_filter)
  then have v: "visible_to u (projects s) ?p"
    by (simp add: visible_to_def)
  have kk: "proposal_id ?p = k" using k by simp
  from q have f: "get_by proposal_id (filter (visible_to u (projects s)) (proposals s)) k = Some p"
    by (simp add: Proposal_queryset_filter)
  have "get_by proposal_id
          (filter (visible_to u (projects s)) (put_by proposal_id ?p (proposals s))) k = Some ?p"
    using f kk v
    by (rule get_by_filter_put_by [of proposal_id "visible_to u (projects s)" "proposals s" k p ?p])
  then show ?thesis
    by (simp add: Proposal_queryset_filter s1 pj)
qed

text \<open>
  C1, as the code has it. After a successful \<open>accept\<close> (the contracts of one proposal
  being at most one, as the one-to-one field has it) the proposal has exactly one
  contract, the one whose id was answered, and exactly one notification has been added,
  addressed to the freelancer. A second \<open>accept\<close> by the same user does not answer that
  id again: the proposal is no longer Pending, so it answers InvalidState and leaves
  the database as the first call left it.
\<close>

theorem accept_twice:
  assumes "accept sig u k s = (Inr cid, s1)"
    and "length (contracts_of k s) \<le> 1"
  shows "accept sig u k s1 = (Inl InvalidState, s1)
      \<and> run_all [accept sig u k, accept sig u k] s = s1
      \<and> map contract_id (contracts_of k s1) = [cid]
      \<and> (\<exists>p n. get_by proposal_id (Proposal_queryset u s) k = Some p
             \<and> notifications s1 = notifications s @ [n]
             \<and> notification_user n = proposal_freelancer p)"
proof -
  from accept_InrD [OF assms(1)] obtain p pr where
    q: "get_by proposal_id (Proposal_queryset u s) k = Some p"
    and pr: "proposal_project_row p s = Some pr"
    and cl: "project_client pr = user_id u"
    and st: "proposal_status p = ''Pending''"
    by blast
  let ?p = "p\<lparr>proposal_status := ''Accepted''\<rparr>"
  have facts: "proposals s1 = put_by proposal_id ?p (proposals s) \<and> projects s1 = projects s
      \<and> map contract_id (contracts_of k s1) = [cid]
      \<and> (\<exists>n. notifications s1 = notifications s @ [n] \<and> notification_user n = proposal_freelancer p)"
  proof (cases "get_by contract_proposal (contracts s) k")
    case None
    then have no: "contracts_of k s = []"
      by (simp add: get_by_None_filter contracts_of_def)
    from accept_creates [OF q pr cl st no, of sig] assms(1) no show ?thesis
      by (auto simp: contracts_of_def)
  next
    case (Some c)
    from get_by_filter_hd [OF Some] assms(2) have "contracts_of k s = [c]"
      by (auto simp: contracts_of_def)
    with accept_existing [OF q pr cl st Some, of sig] assms(1) show ?thesis
      by (auto simp: contracts_of_def)
  qed
  then have found: "get_by proposal_id (Proposal_queryset u s1) k = Some ?p"
    by (intro accept_then_found [OF q]) simp_all
  have "proposal_project_row ?p s1 = Some pr"
    using pr facts by (simp add: proposal_project_row_def)
  from accept_not_pending [OF found this cl, of sig] have again: "accept sig u k s1 = (Inl InvalidState, s1)"
    by simp
  with assms(1) have "run_all [accept sig u k, accept sig u k] s = s1"
    by (simp add: run_all_def)
  with again facts q show ?thesis by blast
qed

theorem accept_twice_witness:
  "accept True alice 1 db0 = (Inr 1, db1) \<and> accept True alice 1 db1 = (Inl InvalidState, db1)
   \<and> map contract_id (contracts_of 1 db1) = [1]"
proof -
  have a: "accept True alice 1 db0 = (Inr 1, db1)" by code_simp
  have b: "length (contracts_of 1 db0) \<le> 1" by code_simp
  from accept_twice [OF a b] a show ?thesis by simp
qed

text \<open>
  C1 as stated fails: in \<open>db0\<close> Alice's first \<open>accept\<close> answers contract 1, her second
  one answers InvalidState and no contract id.
\<close>

theorem second_accept_is_refused:
  "fst (accept False alice 1 db0) = Inr 1
   \<and> fst (accept False alice 1 (snd (accept False alice 1 db0))) = Inl InvalidState"
  by code_simp

text \<open>
  C6, as the code has it. The view fetches the proposal from the queryset of the
  requesting user, and a proposal that is not in it is answered with NotFound before any
  check of the view. So, with primary keys unique: a user who is not the project's client
  gets NotFound unless the proposal is in the queryset, which it then is as the
  freelancer's own proposal, and only then gets Unauthorized; the project's client gets
  InvalidState for a proposal that is not Pending, provided the proposal is in the
  client's queryset. In each of these cases the database is returned as it was: the
  status is unchanged, no contract is created and no notification is added.
\<close>

theorem accept_refused:
  assumes "distinct (map proposal_id (proposals s))"
    and "get_by proposal_id (proposals s) k = Some p"
    and "proposal_project_row p s = Some pr"
    and "project_client pr \<noteq> user_id u \<or> proposal_status p \<noteq> ''Pending''"
  shows "accept sig u k s =
     (if \<not> visible_to u (projects s) p then Inl NotFound
      else if project_client pr \<noteq> user_id u then Inl Unauthorized
      else Inl InvalidState, s)"
proof -
  have q: "get_by proposal_id (Proposal_queryset u s) k =
        (if visible_to u (projects s) p then Some p else None)"
    unfolding Proposal_queryset_filter using assms(1,2) by (rule get_by_filter_distinct)
  show ?thesis
  proof (cases "visible_to u (projects s) p")
    case False
    with q show ?thesis by (simp add: accept_not_found)
  next
    case True
    with q have found: "get_by proposal_id (Proposal_queryset u s) k = Some p" by simp
    show ?thesis
    proof (cases "project_client pr = user_id u")
      case False
      with True accept_not_allowed [OF found assms(3)] show ?thesis by simp
    next
      case cl: True
      with assms(4) have "proposal_status p \<noteq> ''Pending''" by simp
      from accept_not_pending [OF found assms(3) cl this] True cl show ?thesis by simp
    qed
  qed
qed

theorem accept_refused_witness:
  "accept True carol 1 db0 = (Inl NotFound, db0)
   \<and> accept True dave 1 db0 = (Inl NotFound, db0)
   \<and> accept True bob 1 db0 = (Inl Unauthorized, db0)
   \<and> accept True alice 1 db1 = (Inl InvalidState, db1)"
proof -
  have d0: "distinct (map proposal_id (proposals db0))"
    and d1: "distinct (map proposal_id (proposals db1))" by code_simp+
  have g0: "get_by proposal_id (proposals db0) 1 = Some bid"
    and g1: "get_by proposal_id (proposals db1) 1 = Some (bid\<lparr>proposal_status := ''Accepted''\<rparr>)"
    by code_simp+
  have p0: "proposal_project_row bid db0 = Some site"
    and p1: "proposal_project_row (bid\<lparr>proposal_status := ''Accepted''\<rparr>) db1 = Some site"
    by code_simp+
  have c: "project_client site \<noteq> user_id carol \<or> proposal_status bid \<noteq> ''Pending''"
    and d: "project_client site \<noteq> user_id dave \<or> proposal_status bid \<noteq> ''Pending''"
    and b: "project_client site \<noteq> user_id bob \<or> proposal_status bid \<noteq> ''Pending''"
    and a: "project_client site \<noteq> user_id alice
        \<or> proposal_status (bid\<lparr>proposal_status := ''Accepted''\<rparr>) \<noteq> ''Pending''"
    by code_simp+
  have v: "\<not> visible_to carol (projects db0) bid" "\<not> visible_to dave (projects db0) bid"
    "visible_to bob (projects db0) bid" "project_client site \<noteq> user_id bob"
    "visible_to alice (projects db1) (bid\<lparr>proposal_status := ''Accepted''\<rparr>)"
    "project_client site = user_id alice"
    by code_simp+
  from accept_refused [OF d0 g0 p0 c, of True] accept_refused [OF d0 g0 p0 d, of True]
    accept_refused [OF d0 g0 p0 b, of True] accept_refused [OF d1 g1 p1 a, of True] v
  show ?thesis by simp
qed

text \<open>
  C6 as stated fails: Carol, a client but not the client of the project, is answered
  NotFound, not Unauthorized.
\<close>

theorem stranger_gets_not_found:
  "project_client site \<noteq> user_id carol \<and> fst (accept False carol 1 db0) = Inl NotFound"
  by code_simp

section \<open>The contract is a snapshot of the proposal\<close>

lemma apply_proposal_patch_id: "proposal_id (apply_proposal_patch d p) = proposal_id p"
  by (simp add: apply_proposal_patch_def)

lemma partial_update_proposal_keeps_contracts:
  assumes "contracts_of k s \<noteq> []"
  shows "contracts (snd (partial_update_proposal sig u k d s)) = contracts s"
proof (cases "get_by proposal_id (Proposal_queryset u s) k")
  case None
  then show ?thesis by (simp add: partial_update_proposal_def)
next
  case (Some p)
  then have "proposal_id p = k" by (auto dest: get_by_SomeD)
  with assms have "contracts (snd (Proposal_save sig (apply_proposal_patch d p) s)) = contracts s"
    by (intro Proposal_save_keeps_contracts) (simp add: apply_proposal_patch_id)
  with Some show ?thesis by (simp add: snd_partial_update_proposal)
qed

lemma Proposal_save_appends:
  "\<exists>cs. contracts (snd (Proposal_save sig p s)) = contracts s @ cs"
  by (auto simp: Proposal_save_eq split: option.splits)










section \<open>Sending a message\<close>

text \<open>
  C4, as the code has it. A message on a contract (whose project can be found) is
  stored with the requesting user as sender and the receiver the request names. The
  view adds exactly one notification of its own, the last one, addressed to the
  freelancer when the sender is the contract's client and to the client otherwise: to
  the other party, for a sender who is one of the two. It is not the only notification
  of the message: before it, the receiver of the save in models.py has notified the
  receiver the request names, and the one in signals.py has done the same if that
  module is loaded. A message adds two or three notifications.
\<close>

theorem message_notifications:
  assumes "get_by contract_id (contracts s) k = Some c"
    and "contract_project_title c s = Some t"
  shows "\<exists>m s'. perform_create_message sig u k r txt s = (Inr m, s')
      \<and> m = \<lparr>message_id = Suc (message_seq s), message_contract = k, sender = user_id u,
               receiver = r, text_body = txt, message_is_read = False\<rparr>
      \<and> messages s' = messages s @ [m]
      \<and> notifications s' = notifications s @
           [\<lparr>notification_id = Suc (notification_seq s), notification_user = r,
             notification_message = ''New message from '' @ username u,
             link = Some (''/contracts/'' @ str_nat k @ ''/chat''),
             notification_type = ''message'', is_read = False\<rparr>] @
           (if sig then
              [\<lparr>notification_id = Suc (Suc (notification_seq s)), notification_user = r,
                notification_message = ''New message from '' @ username u,
                link = Some (''/contracts/'' @ str_nat k @ ''/chat''),
                notification_type = ''system'', is_read = False\<rparr>]
            else []) @
           [\<lparr>notification_id =
               (if sig then Suc (Suc (Suc (notification_seq s)))
                else Suc (Suc (notification_seq s))),
             notification_user =
               (if user_id u = contract_client c then contract_freelancer c
                else contract_client c),
             notification_message =
               ''New message in your contract chat for '' @ quote @ t @ quote @ ''.'',
             link = Some (''/contracts/'' @ str_nat k @ ''/messages/''),
             notification_type = ''system'', is_read = False\<rparr>]"
proof -
  from assms(1) have k: "contract_id c = k" by (auto dest: get_by_SomeD)
  have t: "contract_project_title c s' = Some t"
    if "proposals s' = proposals s" and "projects s' = projects s" for s'
    using assms(2) that by (simp add: contract_project_title_cong [of s' s c c])
  show ?thesis
    using assms(1) k
    by (cases sig)
      (simp_all add: perform_create_message_def Message_create_def Let_def
        create_notification_on_message_def signals_create_notification_on_message_def
        create_notification_def Notification_create_def t)
qed

theorem message_notifications_witness:
  "map notification_user
     (drop (length (notifications db1))
        (notifications (snd (perform_create_message False alice 1 2 ''hi'' db1)))) = [2, 2]
   \<and> map notification_user
     (drop (length (notifications db1))
        (notifications (snd (perform_create_message True bob 1 1 ''hello'' db1)))) = [1, 1, 1]"
proof -
  have 1: "get_by contract_id (contracts db1) 1 = Some deal" by code_simp
  have 2: "contract_project_title deal db1 = Some ''Site''" by code_simp
  have 3: "user_id alice = contract_client deal" "user_id bob \<noteq> contract_client deal"
    "contract_client deal = 1" "contract_freelancer deal = 2"
    by code_simp+
  from message_notifications [OF 1 2, of False alice 2 "''hi''"]
    message_notifications [OF 1 2, of True bob 1 "''hello''"] 3
  show ?thesis by auto
qed

text \<open>
  C4 as stated fails: Alice writes to Bob on their contract, and Bob gets two
  notifications for the one message.
\<close>

theorem one_message_two_notifications:
  "length (notifications_for (user_id bob) (snd (perform_create_message False alice 1 2 ''hi'' db1)))
     = length (notifications_for (user_id bob) db1) + 2"
  by code_simp

text \<open>
  C5. The claim fails on the code. Carol is neither the client nor the freelancer of
  contract 1. Her message on it is stored, with her as the sender, and it notifies both
  parties: Bob as the receiver she named, and Alice because the view takes any sender
  who is not the client for the freelancer. Nothing in the view looks for the sender
  among the two parties.
\<close>

theorem stranger_can_send_message:
  "user_id carol \<noteq> contract_client deal \<and> user_id carol \<noteq> contract_freelancer deal
   \<and> fst (perform_create_message False carol 1 2 ''hi'' db1)
       = Inr \<lparr>message_id = 1, message_contract = 1, sender = 3, receiver = 2,
              text_body = ''hi'', message_is_read = False\<rparr>
   \<and> length (messages (snd (perform_create_message False carol 1 2 ''hi'' db1))) = 1
   \<and> map notification_user
       (drop (length (notifications db1))
          (notifications (snd (perform_create_message False carol 1 2 ''hi'' db1)))) = [2, 1]"
  by code_simp

end
